theory Spec2Isabelle
  imports Main "HOL-Library.Sublist" "HOL-Library.Multiset"
begin

section \<open>Python string operations used by win\_installer.py\<close>

text \<open>
  Strings are \<^typ>\<open>string\<close>, lists of 8-bit characters.  The script decodes the
  output of \<^verbatim>\<open>pip freeze\<close> as Latin-1, which maps every byte to the code point
  of the same number, so a decoded text and its bytes are the same \<^typ>\<open>string\<close>.
\<close>

text \<open>
  \<^verbatim>\<open>s.partition(sep)\<close>: split at the first occurrence of \<open>sep\<close> into the part
  before it, the separator and the part after it; \<open>(s, '', '')\<close> when \<open>sep\<close> does not
  occur.  The script only calls it with the separator \<^verbatim>\<open>'=='\<close>.
\<close>

fun find_sep :: "string \<Rightarrow> string \<Rightarrow> (string \<times> string) option" where
  "find_sep sep [] = None"
| "find_sep sep (c # cs) =
     (if prefix sep (c # cs) then Some ([], drop (length sep) (c # cs))
      else (case find_sep sep cs of
              None \<Rightarrow> None
            | Some (b, a) \<Rightarrow> Some (c # b, a)))"

definition str_partition :: "string \<Rightarrow> string \<Rightarrow> string \<times> string \<times> string" where
  "str_partition s sep =
     (case find_sep sep s of
        None \<Rightarrow> (s, [], [])
      | Some (b, a) \<Rightarrow> (b, sep, a))"

text \<open>\<^verbatim>\<open>sep.join(xs)\<close>.\<close>

fun str_join :: "string \<Rightarrow> string list \<Rightarrow> string" where
  "str_join sep [] = []"
| "str_join sep [x] = x"
| "str_join sep (x # y # ys) = x @ sep @ str_join sep (y # ys)"

text \<open>
  \<^verbatim>\<open>text.splitlines()\<close> on a \<open>str\<close> whose code points are below 256: a line ends at
  LF, CR, CR LF, VT, FF, FS, GS, RS or NEL; the line ends are dropped, and a text that ends
  with a line end has no empty last line.
\<close>

definition is_linebreak :: "char \<Rightarrow> bool" where
  "is_linebreak c =
     (c \<in> set [CHR 0x0A, CHR 0x0D, CHR 0x0B, CHR 0x0C, CHR 0x1C, CHR 0x1D, CHR 0x1E, CHR 0x85])"

fun splitlines_from :: "string \<Rightarrow> string \<Rightarrow> string list" where
  "splitlines_from cur [] = (if cur = [] then [] else [cur])"
| "splitlines_from cur [c] = (if is_linebreak c then [cur] else [cur @ [c]])"
| "splitlines_from cur (c # d # cs) =
     (if c = CHR 0x0D \<and> d = CHR 0x0A then cur # splitlines_from [] cs
      else if is_linebreak c then cur # splitlines_from [] (d # cs)
      else splitlines_from (cur @ [c]) (d # cs))"

definition splitlines :: "string \<Rightarrow> string list" where
  "splitlines text = splitlines_from [] text"

text \<open>\<^verbatim>\<open>s.endswith(suffix)\<close>.\<close>

definition endswith :: "string \<Rightarrow> string \<Rightarrow> bool" where
  "endswith s suf = (length suf \<le> length s \<and> drop (length s - length suf) s = suf)"

text \<open>\<^verbatim>\<open>s.split(c)\<close> for a one-character separator: never the empty list.\<close>

fun str_split :: "char \<Rightarrow> string \<Rightarrow> string list" where
  "str_split c [] = [[]]"
| "str_split c (x # xs) =
     (if x = c then [] # str_split c xs
      else (case str_split c xs of
              [] \<Rightarrow> [[x]]
            | y # ys \<Rightarrow> (x # y) # ys))"

section \<open>Effects: a log of external actions, and exceptions as values\<close>

text \<open>
  The script is glue around external tools.  Every call that leaves the process is
  logged as an \<open>event\<close> in the order in which it is attempted, and answered by the
  environment \<open>env\<close>, a deterministic mock of the outside world, with a value or with
  the name of the exception the call raises.  A computation is a pair
  of the events it produced and either the exception that ended it (\<open>Inl\<close>) or its
  value (\<open>Inr\<close>).  The \<^verbatim>\<open>print\<close> calls of the script write progress messages to
  standard output and decide nothing; they are left out of the log.
\<close>

datatype error =
    CalledProcessError int
  | KeyError string
  | TypeError
  | External string

datatype event =
    MkTemp string
  | RmTemp string
  | ReadFile string
  | Subprocess "string list"
  | IndexQuery string
  | WriteFile string string
  | HttpGet string
  | Unzip string string
  | CopyFile string string

type_synonym 'a io = "event list \<times> (error + 'a)"

text \<open>
  The environment.  \<open>spawn\<close> answers a command line with the exit status and the standard
  output of the child process, or with the exception of a process that could not be
  started.  \<open>yarg_get\<close> answers a package name with the package of the index, whose
  \<^verbatim>\<open>release(version)\<close> is \<^verbatim>\<open>None\<close> or the list of the \<^verbatim>\<open>package_type\<close>s of the
  files of that release.  \<open>exec_file\<close> is the dictionary obtained by executing a Python
  file.  \<open>set_rank\<close> stands for the hash order of a \<^verbatim>\<open>set\<close> of strings, which CPython
  salts per process: a set is iterated by increasing rank.
\<close>

record env =
  sys_executable :: string
  path_join :: "string list \<Rightarrow> string"
  path_dirname :: "string \<Rightarrow> string"
  path_abspath :: "string \<Rightarrow> string"
  mkdtemp :: "string \<Rightarrow> string"
  exec_file :: "string \<Rightarrow> string + (string \<rightharpoonup> string)"
  spawn :: "string list \<Rightarrow> string + int \<times> string"
  yarg_get :: "string \<Rightarrow> string + (string \<Rightarrow> string list option)"
  set_rank :: "string \<Rightarrow> nat"
  requests_get :: "string \<Rightarrow> string + string"
  extractall :: "string \<Rightarrow> string \<Rightarrow> string + unit"
  shutil_copy :: "string \<Rightarrow> string \<Rightarrow> string + unit"

text \<open>
  An exception raised inside an external call (\<^verbatim>\<open>OSError\<close>, \<^verbatim>\<open>HTTPError\<close>,
  \<^verbatim>\<open>BadZipFile\<close>, ...) is named by the environment and passes through the script
  unhandled.
\<close>

definition external :: "string + 'a \<Rightarrow> error + 'a" where
  "external answer = (case answer of Inl exn \<Rightarrow> Inl (External exn) | Inr v \<Rightarrow> Inr v)"

definition io_return :: "'a \<Rightarrow> 'a io" where
  "io_return x = ([], Inr x)"

definition io_bind :: "'a io \<Rightarrow> ('a \<Rightarrow> 'b io) \<Rightarrow> 'b io" where
  "io_bind m f =
     (case m of
        (t, Inl e) \<Rightarrow> (t, Inl e)
      | (t, Inr x) \<Rightarrow> (case f x of (t', r) \<Rightarrow> (t @ t', r)))"

text \<open>\<^verbatim>\<open>d[k]\<close> on a dictionary: \<^verbatim>\<open>KeyError\<close> for a missing key.\<close>

definition getitem :: "(string \<rightharpoonup> 'v) \<Rightarrow> string \<Rightarrow> 'v io" where
  "getitem d k = (case d k of None \<Rightarrow> ([], Inl (KeyError k)) | Some v \<Rightarrow> ([], Inr v))"

text \<open>
  \<^verbatim>\<open>subprocess.run(args)\<close> without \<^verbatim>\<open>check=True\<close>: the exit status is stored in the
  returned \<^verbatim>\<open>CompletedProcess\<close>, which every caller in the script discards.
\<close>

definition subprocess_run :: "env \<Rightarrow> string list \<Rightarrow> unit io" where
  "subprocess_run env args =
     ([Subprocess args],
      case spawn env args of
        Inl exn \<Rightarrow> Inl (External exn)
      | Inr (returncode, output) \<Rightarrow> Inr ())"

text \<open>\<^verbatim>\<open>subprocess.check_output(args)\<close>: a non-zero exit status raises.\<close>

definition check_output :: "env \<Rightarrow> string list \<Rightarrow> string io" where
  "check_output env args =
     ([Subprocess args],
      case spawn env args of
        Inl exn \<Rightarrow> Inl (External exn)
      | Inr (returncode, output) \<Rightarrow>
          if returncode \<noteq> 0 then Inl (CalledProcessError returncode) else Inr output)"

section \<open>The functions of win\_installer.py\<close>

definition URL :: string where
  "URL = ''https://github.com/mu-editor/mu_tkinter/releases/download/''"

definition ASSETS :: "string \<rightharpoonup> string" where
  "ASSETS =
     [''32'' \<mapsto> URL @ ''0.3/pynsist_tkinter_3.6_32bit.zip'',
      ''64'' \<mapsto> URL @ ''0.3/pynsist_tkinter_3.6_64bit.zip'']"

definition download_file :: "env \<Rightarrow> string \<Rightarrow> string \<Rightarrow> string io" where
  "download_file env url target_directory =
     (let local_filename = path_join env [target_directory, last (str_split CHR ''/'' url)] in
      io_bind ([HttpGet url], external (requests_get env url)) (\<lambda>content.
      io_bind ([WriteFile local_filename content], Inr ()) (\<lambda>_.
      io_return local_filename)))"

definition unzip_file :: "env \<Rightarrow> string \<Rightarrow> string \<Rightarrow> unit io" where
  "unzip_file env filename target_directory =
     ([Unzip filename target_directory], external (extractall env filename target_directory))"

definition create_packaging_venv :: "env \<Rightarrow> string \<Rightarrow> string \<Rightarrow> string io" where
  "create_packaging_venv env target_directory name =
     (let fullpath = path_join env [target_directory, name] in
      io_bind (subprocess_run env [sys_executable env, ''-m'', ''venv'', fullpath]) (\<lambda>_.
      io_return (path_join env [fullpath, ''Scripts'', ''python.exe''])))"

definition install_mu :: "env \<Rightarrow> string \<Rightarrow> string \<Rightarrow> unit io" where
  "install_mu env python repo_root =
     subprocess_run env [python, ''-m'', ''pip'', ''install'', repo_root]"

definition pip_freeze :: "env \<Rightarrow> string \<Rightarrow> string list io" where
  "pip_freeze env python =
     io_bind (check_output env [python, ''-m'', ''pip'', ''freeze'', ''--all'']) (\<lambda>output.
     io_return (splitlines output))"

definition about_dict :: "env \<Rightarrow> string \<Rightarrow> (string \<rightharpoonup> string) io" where
  "about_dict env repo_root =
     (let f = path_join env [repo_root, ''mu'', ''__about__.py''] in
      ([ReadFile f], external (exec_file env f)))"

text \<open>
  \<open>wheels_in\<close>: the loop over the requirements, with the list \<open>wheels\<close> built so far.
  \<^verbatim>\<open>yarg.get(name)\<close> is one request to the index per requirement and may raise;
  \<^verbatim>\<open>any(... for r in releases)\<close> raises \<^verbatim>\<open>TypeError\<close> when \<open>releases\<close> is
  \<^verbatim>\<open>None\<close>.
\<close>

fun wheels_loop :: "env \<Rightarrow> string list \<Rightarrow> string list \<Rightarrow> string list io" where
  "wheels_loop env wheels [] = ([], Inr wheels)"
| "wheels_loop env wheels (requirement # rest) =
     (case str_partition requirement ''=='' of (name, _, version) \<Rightarrow>
        (case yarg_get env name of
           Inl exn \<Rightarrow> ([IndexQuery name], Inl (External exn))
         | Inr package \<Rightarrow>
             (case package version of
                None \<Rightarrow> ([IndexQuery name], Inl TypeError)
              | Some releases \<Rightarrow>
                  (case wheels_loop env
                          (if list_ex (\<lambda>package_type. package_type = ''wheel'') releases
                           then wheels @ [requirement] else wheels)
                          rest of
                     (t, r) \<Rightarrow> (IndexQuery name # t, r)))))"

definition wheels_in :: "env \<Rightarrow> string list \<Rightarrow> string list io" where
  "wheels_in env requirements = wheels_loop env [] requirements"

text \<open>
  \<open>packages_from\<close>: \<^verbatim>\<open>set(requirements) - set(wheels)\<close>, iterated in the order of the
  set.  The elements of the difference are the distinct requirements that are not wheels;
  they are visited by increasing \<open>rank\<close>.
\<close>

definition packages_from :: "(string \<Rightarrow> nat) \<Rightarrow> string list \<Rightarrow> string list \<Rightarrow> string list" where
  "packages_from rank requirements wheels =
     (let rset = remdups requirements;
          wset = set wheels;
          pset = sort_key rank [r \<leftarrow> rset. r \<notin> wset]
      in [fst (str_partition p ''==''). p \<leftarrow> pset])"

text \<open>
  \<^verbatim>\<open>PYNSIST_CFG_TEMPLATE.format(**kw)\<close> with the seven keywords \<open>run\<close> passes.  The
  template is the lines below joined by newlines (it starts and ends with a newline); each
  placeholder is replaced by the text of its keyword.
\<close>

definition PYNSIST_CFG_TEMPLATE_format ::
  "string \<Rightarrow> string \<Rightarrow> string \<Rightarrow> string \<Rightarrow> string \<Rightarrow> string \<Rightarrow> string \<Rightarrow> string" where
  "PYNSIST_CFG_TEMPLATE_format version icon_file license_file bitness pypi_wheels packages
       installer_name =
     str_join ''\<newline>''
       ['''',
        ''[Application]'',
        ''name=Mu'',
        ''version='' @ version,
        ''entry_point=mu.app:run'',
        ''icon='' @ icon_file,
        ''publisher=Nicholas H.Tollervey'',
        ''license_file='' @ license_file,
        '''',
        ''[Command mu-debug]'',
        ''entry_point=mu.app:debug'',
        '''',
        ''[Command pgzrun]'',
        ''entry_point=pgzero.runner:main'',
        '''',
        ''[Python]'',
        ''version=3.6.3'',
        ''bitness='' @ bitness,
        ''format=bundled'',
        '''',
        ''[Include]'',
        ''pypi_wheels='',
        ''    '' @ pypi_wheels,
        '''',
        ''packages='',
        ''    tkinter'',
        ''    _tkinter'',
        ''    turtle'',
        ''    '' @ packages,
        '''',
        ''files=lib'',
        '''',
        ''[Build]'',
        ''installer_name='' @ installer_name,
        '''']"

text \<open>
  \<open>create_pynsist_cfg_file\<close>: the event carries the text handed to \<^verbatim>\<open>f.write\<close>.
  Writing into the fresh work directory is taken to succeed.
\<close>

definition create_pynsist_cfg_file ::
  "env \<Rightarrow> string \<Rightarrow> string \<Rightarrow> string \<Rightarrow> string \<Rightarrow> string \<Rightarrow> string \<Rightarrow> string \<Rightarrow> string
     \<Rightarrow> string io" where
  "create_pynsist_cfg_file env target_directory version icon_file license_file bitness
       pypi_wheels packages installer_name =
     (let filename = path_join env [target_directory, ''pynsist.cfg''];
          pynsist_cfg_payload =
            PYNSIST_CFG_TEMPLATE_format version icon_file license_file bitness pypi_wheels
              packages installer_name
      in io_bind ([WriteFile filename pynsist_cfg_payload], Inr ()) (\<lambda>_.
         io_return filename))"

text \<open>
  \<^verbatim>\<open>with tempfile.TemporaryDirectory(suffix=...) as work_dir\<close>: the directory is made,
  the body runs, and the directory is removed when the block is left, whether the body
  returned or raised.  Making and removing the directory are taken to succeed.
\<close>

definition with_tempdir :: "env \<Rightarrow> string \<Rightarrow> (string \<Rightarrow> 'a io) \<Rightarrow> 'a io" where
  "with_tempdir env sfx body =
     (let work_dir = mkdtemp env sfx in
      case body work_dir of (t, r) \<Rightarrow> (MkTemp work_dir # t @ [RmTemp work_dir], r))"

text \<open>The requirements kept by \<open>run\<close>: the comprehension over the lines of pip freeze.\<close>

definition requirements_of :: "string \<Rightarrow> string list \<Rightarrow> string list" where
  "requirements_of mu_package_name freeze_lines =
     [line \<leftarrow> freeze_lines. fst (str_partition line ''=='') \<noteq> mu_package_name]"

definition installer_name_of :: "string \<Rightarrow> string \<Rightarrow> string \<Rightarrow> string" where
  "installer_name_of mu_package_name mu_version bitness =
     mu_package_name @ ''_'' @ mu_version @ ''_win'' @ bitness @ ''.exe''"

definition run_body :: "env \<Rightarrow> string \<Rightarrow> string \<Rightarrow> string \<Rightarrow> unit io" where
  "run_body env bitness repo_root work_dir =
     io_bind (about_dict env repo_root) (\<lambda>mu_about.
     io_bind (getitem mu_about ''__title__'') (\<lambda>mu_package_name.
     io_bind (getitem mu_about ''__version__'') (\<lambda>mu_version.
     let icon_file = path_join env [repo_root, ''package'', ''icons'', ''win_icon.ico''];
         license_file = path_join env [repo_root, ''LICENSE'']
     in
     io_bind (create_packaging_venv env work_dir ''mu-packaging-venv'') (\<lambda>venv_python.
     io_bind (install_mu env venv_python repo_root) (\<lambda>_.
     io_bind (pip_freeze env venv_python) (\<lambda>freeze_lines.
     let requirements = requirements_of mu_package_name freeze_lines in
     io_bind (wheels_in env requirements) (\<lambda>wheels.
     let packages = packages_from (set_rank env) requirements wheels;
         installer_name = installer_name_of mu_package_name mu_version bitness
     in
     io_bind (create_pynsist_cfg_file env work_dir mu_version icon_file license_file bitness
                (str_join ''\<newline>    '' wheels) (str_join ''\<newline>    '' packages)
                installer_name) (\<lambda>pynsist_cfg_filename.
     io_bind (getitem ASSETS bitness) (\<lambda>url.
     io_bind (download_file env url work_dir) (\<lambda>filename.
     io_bind (unzip_file env filename work_dir) (\<lambda>_.
     io_bind (subprocess_run env [venv_python, ''-m'', ''pip'', ''install'', ''pynsist'']) (\<lambda>_.
     io_bind (subprocess_run env [venv_python, ''-m'', ''nsist'', pynsist_cfg_filename]) (\<lambda>_.
     (let src = path_join env [work_dir, ''build'', ''nsis'', installer_name] in
      ([CopyFile src ''.''], external (shutil_copy env src ''.''))))))))))))))))"

definition run :: "env \<Rightarrow> string \<Rightarrow> string \<Rightarrow> unit io" where
  "run env bitness repo_root =
     with_tempdir env ''.mu-pynsist'' (run_body env bitness repo_root)"

text \<open>
  The command-line entry point.  \<^verbatim>\<open>sys.exit(message)\<close> prints the message to standard
  error and ends the process with exit status 1, as an uncaught exception does.
\<close>

datatype outcome = Completed | SysExit string | Uncaught error

fun exit_status :: "outcome \<Rightarrow> int" where
  "exit_status Completed = 0"
| "exit_status (SysExit message) = 1"
| "exit_status (Uncaught e) = 1"

definition main :: "env \<Rightarrow> string list \<Rightarrow> event list \<times> outcome" where
  "main env argv =
     (if length argv \<noteq> 3 then
        ([], SysExit ''Supply bitness (32 or 64) and path to setup.py.'')
      else
        (let bitness = argv ! 1; setup_py_path = argv ! 2 in
         if ASSETS bitness = None then
           ([], SysExit (''Invalid bitness '' @ bitness @ '': use 32 or 64.''))
         else if \<not> endswith setup_py_path ''setup.py'' then
           ([], SysExit (''Invalid path to setup.py: '' @ setup_py_path @ ''.''))
         else
           (let repo_root = path_abspath env (path_dirname env setup_py_path) in
            case run env bitness repo_root of
              (t, Inl e) \<Rightarrow> (t, Uncaught e)
            | (t, Inr u) \<Rightarrow> (t, Completed))))"

section \<open>Vocabulary of the statements\<close>

text \<open>The package name of a requirement: what the script takes before the first \<open>==\<close>.\<close>

definition package_name :: "string \<Rightarrow> string" where
  "package_name requirement = fst (str_partition requirement ''=='')"

text \<open>The paths and the command line that \<open>run\<close> builds from the environment.\<close>

abbreviation work_dir_of :: "env \<Rightarrow> string" where
  "work_dir_of env \<equiv> mkdtemp env ''.mu-pynsist''"

abbreviation venv_python_of :: "env \<Rightarrow> string" where
  "venv_python_of env \<equiv>
     path_join env
       [path_join env [work_dir_of env, ''mu-packaging-venv''], ''Scripts'', ''python.exe'']"

abbreviation about_file_of :: "env \<Rightarrow> string \<Rightarrow> string" where
  "about_file_of env repo_root \<equiv> path_join env [repo_root, ''mu'', ''__about__.py'']"

abbreviation freeze_command :: "env \<Rightarrow> string list" where
  "freeze_command env \<equiv> [venv_python_of env, ''-m'', ''pip'', ''freeze'', ''--all'']"

abbreviation artifact_of :: "env \<Rightarrow> string \<Rightarrow> string" where
  "artifact_of env installer_name \<equiv>
     path_join env [work_dir_of env, ''build'', ''nsis'', installer_name]"

text \<open>
  \<open>with_exit_status status env\<close> is \<open>env\<close> with the exit status of every child process
  other than pip freeze replaced by \<open>status\<close> of its command line; what the processes
  print, and which of them cannot be started, stay as they are.
\<close>

definition is_freeze_command :: "string list \<Rightarrow> bool" where
  "is_freeze_command args = (drop 1 args = [''-m'', ''pip'', ''freeze'', ''--all''])"

definition with_exit_status :: "(string list \<Rightarrow> int) \<Rightarrow> env \<Rightarrow> env" where
  "with_exit_status status env =
     env\<lparr>spawn := (\<lambda>args.
            case spawn env args of
              Inl exn \<Rightarrow> Inl exn
            | Inr (returncode, output) \<Rightarrow>
                Inr (if is_freeze_command args then returncode else status args, output))\<rparr>"

text \<open>
  Two events are the same up to package order when they are equal, or both write the
  same file with renderings of the template that differ only in the order of the entries
  joined into the \<open>packages\<close> placeholder.
\<close>

definition same_up_to_package_order :: "event \<Rightarrow> event \<Rightarrow> bool" where
  "same_up_to_package_order a b =
     (a = b \<or>
      (\<exists>f version icon_file license_file bitness pypi_wheels installer_name ps qs.
         a = WriteFile f (PYNSIST_CFG_TEMPLATE_format version icon_file license_file bitness
                            pypi_wheels (str_join ''\<newline>    '' ps) installer_name) \<and>
         b = WriteFile f (PYNSIST_CFG_TEMPLATE_format version icon_file license_file bitness
                            pypi_wheels (str_join ''\<newline>    '' qs) installer_name) \<and>
         mset ps = mset qs))"

text \<open>The configuration texts a log of events writes to the file \<open>f\<close>.\<close>

fun written_to :: "string \<Rightarrow> event list \<Rightarrow> string list" where
  "written_to f [] = []"
| "written_to f (WriteFile g content # t) =
     (if g = f then content # written_to f t else written_to f t)"
| "written_to f (ev # t) = written_to f t"

text \<open>
  A concrete environment for evaluating the model: every child process exits with
  \<open>status\<close> of its command line, pip freeze prints \<open>freeze_output\<close>, the index knows a
  wheel for \<open>pgzero\<close> only, and sets are iterated by increasing \<open>rank\<close>.
\<close>

definition mock_env :: "(string list \<Rightarrow> int) \<Rightarrow> string \<Rightarrow> (string \<Rightarrow> nat) \<Rightarrow> env" where
  "mock_env status freeze_output rank =
     \<lparr> sys_executable = ''python'',
       path_join = str_join ''/'',
       path_dirname = (\<lambda>p. str_join ''/'' (butlast (str_split CHR ''/'' p))),
       path_abspath = (\<lambda>p. p),
       mkdtemp = (\<lambda>sfx. ''tmp'' @ sfx),
       exec_file = (\<lambda>f. Inr [''__title__'' \<mapsto> ''mu'', ''__version__'' \<mapsto> ''1.0'']),
       spawn = (\<lambda>args. Inr (status args,
                  if drop 1 args = [''-m'', ''pip'', ''freeze'', ''--all'']
                  then freeze_output else [])),
       yarg_get = (\<lambda>name. Inr (\<lambda>version.
                  Some (if name = ''pgzero'' then [''sdist'', ''wheel''] else [''sdist'']))),
       set_rank = rank,
       requests_get = (\<lambda>url. Inr ''PK''),
       extractall = (\<lambda>filename target. Inr ()),
       shutil_copy = (\<lambda>src dst. Inr ()) \<rparr>"

text \<open>
  The events of the body of \<open>run\<close> when every step returns: \<open>N\<close> and \<open>V\<close> are the
  descriptor's title and version, \<open>index_queries\<close> the events of \<open>wheels_in\<close>, \<open>url\<close>
  the asset and \<open>content\<close> what the download returned.
\<close>

definition pipeline_log ::
  "env \<Rightarrow> string \<Rightarrow> string \<Rightarrow> string \<Rightarrow> string \<Rightarrow> string list \<Rightarrow> event list \<Rightarrow> string list
     \<Rightarrow> string \<Rightarrow> string \<Rightarrow> event list" where
  "pipeline_log env bitness repo_root N V requirements index_queries wheels url content =
     [ReadFile (about_file_of env repo_root),
      Subprocess [sys_executable env, ''-m'', ''venv'',
                  path_join env [work_dir_of env, ''mu-packaging-venv'']],
      Subprocess [venv_python_of env, ''-m'', ''pip'', ''install'', repo_root],
      Subprocess (freeze_command env)]
     @ index_queries @
     [WriteFile (path_join env [work_dir_of env, ''pynsist.cfg''])
        (PYNSIST_CFG_TEMPLATE_format V
           (path_join env [repo_root, ''package'', ''icons'', ''win_icon.ico''])
           (path_join env [repo_root, ''LICENSE'']) bitness
           (str_join ''\<newline>    '' wheels)
           (str_join ''\<newline>    '' (packages_from (set_rank env) requirements wheels))
           (installer_name_of N V bitness)),
      HttpGet url,
      WriteFile (path_join env [work_dir_of env, last (str_split CHR ''/'' url)]) content,
      Unzip (path_join env [work_dir_of env, last (str_split CHR ''/'' url)]) (work_dir_of env),
      Subprocess [venv_python_of env, ''-m'', ''pip'', ''install'', ''pynsist''],
      Subprocess [venv_python_of env, ''-m'', ''nsist'',
                  path_join env [work_dir_of env, ''pynsist.cfg'']],
      CopyFile (artifact_of env (installer_name_of N V bitness)) ''.'']"

text \<open>
  The temporary directories a log leaves behind: those made and not removed, starting
  from the directories \<open>ds\<close>.
\<close>

fun is_temp_event :: "event \<Rightarrow> bool" where
  "is_temp_event (MkTemp d) = True"
| "is_temp_event (RmTemp d) = True"
| "is_temp_event ev = False"

fun temp_dirs_after :: "string list \<Rightarrow> event list \<Rightarrow> string list" where
  "temp_dirs_after ds [] = ds"
| "temp_dirs_after ds (MkTemp d # t) = temp_dirs_after (d # ds) t"
| "temp_dirs_after ds (RmTemp d # t) = temp_dirs_after (removeAll d ds) t"
| "temp_dirs_after ds (ev # t) = temp_dirs_after ds t"

text \<open>
  Two computations are the same run up to package order when they end alike and their
  events are pairwise the same up to package order.
\<close>

definition same_run :: "'a io \<Rightarrow> 'a io \<Rightarrow> bool" where
  "same_run p q = (list_all2 same_up_to_package_order (fst p) (fst q) \<and> snd p = snd q)"

text \<open>
  The output of pip freeze used with \<open>mock_env\<close>, and the log of the complete run of
  \<open>run\<close> for bitness \<open>64\<close> and the repository \<open>C:/mu\<close> in that environment.
\<close>

definition mock_freeze_output :: string where
  "mock_freeze_output = ''mu==1.0\<newline>pgzero==1.2\<newline>nudatus==0.0.3\<newline>''"

definition mock_log :: "event list" where
  "mock_log =
     [MkTemp ''tmp.mu-pynsist'',
      ReadFile ''C:/mu/mu/__about__.py'',
      Subprocess [''python'', ''-m'', ''venv'', ''tmp.mu-pynsist/mu-packaging-venv''],
      Subprocess [''tmp.mu-pynsist/mu-packaging-venv/Scripts/python.exe'', ''-m'', ''pip'',
                  ''install'', ''C:/mu''],
      Subprocess [''tmp.mu-pynsist/mu-packaging-venv/Scripts/python.exe'', ''-m'', ''pip'',
                  ''freeze'', ''--all''],
      IndexQuery ''pgzero'',
      IndexQuery ''nudatus'',
      WriteFile ''tmp.mu-pynsist/pynsist.cfg''
        (PYNSIST_CFG_TEMPLATE_format ''1.0'' ''C:/mu/package/icons/win_icon.ico''
           ''C:/mu/LICENSE'' ''64'' ''pgzero==1.2'' ''nudatus'' ''mu_1.0_win64.exe''),
      HttpGet (URL @ ''0.3/pynsist_tkinter_3.6_64bit.zip''),
      WriteFile ''tmp.mu-pynsist/pynsist_tkinter_3.6_64bit.zip'' ''PK'',
      Unzip ''tmp.mu-pynsist/pynsist_tkinter_3.6_64bit.zip'' ''tmp.mu-pynsist'',
      Subprocess [''tmp.mu-pynsist/mu-packaging-venv/Scripts/python.exe'', ''-m'', ''pip'',
                  ''install'', ''pynsist''],
      Subprocess [''tmp.mu-pynsist/mu-packaging-venv/Scripts/python.exe'', ''-m'', ''nsist'',
                  ''tmp.mu-pynsist/pynsist.cfg''],
      CopyFile ''tmp.mu-pynsist/build/nsis/mu_1.0_win64.exe'' ''.'',
      RmTemp ''tmp.mu-pynsist'']"

section \<open>Lemmas about the string operations\<close>

lemma find_sep_Some:
  "find_sep sep s = Some (b, a) \<Longrightarrow> s = b @ sep @ a"
proof (induction s arbitrary: b a)
  case Nil
  then show ?case by simp
next
  case (Cons c cs)
  show ?case
  proof (cases "prefix sep (c # cs)")
    case True
    with Cons.prems have "b = []" "a = drop (length sep) (c # cs)" by simp_all
    moreover from True have "take (length sep) (c # cs) = sep"
      by (metis append_eq_conv_conj prefix_def)
    ultimately show ?thesis by (metis append_Nil append_take_drop_id)
  next
    case False
    with Cons.prems obtain b' where "find_sep sep cs = Some (b', a)" "b = c # b'"
      by (auto split: option.splits)
    with Cons.IH show ?thesis by simp
  qed
qed

lemma find_sep_before:
  "sep \<noteq> [] \<Longrightarrow> find_sep sep s = Some (b, a) \<Longrightarrow> \<not> sublist sep b"
proof (induction s arbitrary: b a)
  case Nil
  then show ?case by simp
next
  case (Cons c cs)
  show ?case
  proof (cases "prefix sep (c # cs)")
    case True
    with Cons.prems show ?thesis by simp
  next
    case False
    with Cons.prems obtain b' where b': "find_sep sep cs = Some (b', a)" "b = c # b'"
      by (auto split: option.splits)
    from b'(1) have cs: "cs = b' @ sep @ a" by (rule find_sep_Some)
    have "\<not> prefix sep (c # b')"
    proof
      assume "prefix sep (c # b')"
      then have "prefix sep ((c # b') @ sep @ a)" by (rule prefix_prefix)
      with cs False show False by simp
    qed
    moreover from Cons.IH [OF Cons.prems(1) b'(1)] have "\<not> sublist sep b'" .
    ultimately show ?thesis using b'(2) by (simp add: sublist_Cons_right)
  qed
qed

lemma find_sep_None:
  "sep \<noteq> [] \<Longrightarrow> find_sep sep s = None \<Longrightarrow> \<not> sublist sep s"
proof (induction s)
  case Nil
  then show ?case by simp
next
  case (Cons c cs)
  then show ?case
    by (auto simp: sublist_Cons_right split: if_splits option.splits)
qed

lemma name_no_sep:
  "sep \<noteq> [] \<Longrightarrow> \<not> sublist sep (fst (str_partition s sep))"
  by (auto simp: str_partition_def split: option.splits dest: find_sep_None find_sep_before)

lemma name_cases:
  "fst (str_partition s sep) = s \<or> (\<exists>rest. s = fst (str_partition s sep) @ sep @ rest)"
  by (auto simp: str_partition_def split: option.splits dest: find_sep_Some)

section \<open>Lemmas about the wheel classifier and the extra packages\<close>

lemma wheels_loop_filter:
  "wheels_loop env acc reqs = (t, Inr ws) \<Longrightarrow> \<exists>ws'. ws = acc @ ws' \<and> subseq ws' reqs"
proof (induction reqs arbitrary: acc t ws)
  case Nil
  then show ?case by simp
next
  case (Cons r rs)
  obtain name m version where p: "str_partition r ''=='' = (name, m, version)"
    by (cases "str_partition r ''==''") auto
  from Cons.prems p obtain package releases t' where
    pk: "yarg_get env name = Inr package" "package version = Some releases" and
    rec: "wheels_loop env (if list_ex (\<lambda>package_type. package_type = ''wheel'') releases
                           then acc @ [r] else acc) rs = (t', Inr ws)"
    by (auto split: sum.splits option.splits prod.splits)
  from Cons.IH [OF rec] obtain ws' where
    ws': "ws = (if list_ex (\<lambda>package_type. package_type = ''wheel'') releases
                then acc @ [r] else acc) @ ws'" "subseq ws' rs"
    by blast
  show ?case
  proof (cases "list_ex (\<lambda>package_type. package_type = ''wheel'') releases")
    case True
    with ws' have "ws = acc @ (r # ws')" "subseq (r # ws') (r # rs)" by simp_all
    then show ?thesis by blast
  next
    case False
    with ws' have "ws = acc @ ws'" "subseq ws' (r # rs)" by (simp_all add: list_emb_Cons)
    then show ?thesis by blast
  qed
qed

lemma wheels_in_subseq:
  "wheels_in env requirements = (t, Inr wheels) \<Longrightarrow> subseq wheels requirements"
  using wheels_loop_filter [of env "[]" requirements t wheels] by (simp add: wheels_in_def)

lemma wheels_in_subset:
  "wheels_in env requirements = (t, Inr wheels) \<Longrightarrow> set wheels \<subseteq> set requirements"
  by (auto dest: wheels_in_subseq elim: list_emb_set)

lemma set_packages_from:
  "set (packages_from rank requirements wheels) =
     package_name ` (set requirements - set wheels)"
  by (auto simp: packages_from_def package_name_def Let_def)

lemma wheels_packages_disjoint_by_name:
  assumes "wheels_in env requirements = (t, Inr wheels)"
    and "distinct (map package_name requirements)"
  shows "package_name ` set wheels \<inter> set (packages_from rank requirements wheels) = {}"
proof -
  from assms(1) have sub: "set wheels \<subseteq> set requirements" by (rule wheels_in_subset)
  from assms(2) have inj: "inj_on package_name (set requirements)"
    by (simp add: distinct_map)
  show ?thesis
  proof (rule ccontr)
    assume "package_name ` set wheels \<inter> set (packages_from rank requirements wheels) \<noteq> {}"
    then obtain w r where "w \<in> set wheels" "r \<in> set requirements" "r \<notin> set wheels"
      "package_name w = package_name r"
      by (auto simp: set_packages_from)
    with sub inj show False by (auto dest: inj_onD)
  qed
qed

lemma wheels_in_mock:
  "wheels_in (mock_env status out rank) [''pgzero==1.2'', ''nudatus==0.0.3''] =
     ([IndexQuery ''pgzero'', IndexQuery ''nudatus''], Inr [''pgzero==1.2''])"
  by (simp add: wheels_in_def mock_env_def str_partition_def)

lemma packages_from_mock:
  "packages_from length [''pgzero==1.2'', ''nudatus==0.0.3''] [''pgzero==1.2''] = [''nudatus'']"
  by (simp add: packages_from_def str_partition_def)

section \<open>The wheel list and the extra packages\<close>

text \<open>
  Claim C8.  Whenever \<open>wheels_in\<close> returns, the list it returns is a subsequence of the
  requirements it was given: its elements are elements of the input, unchanged, in the
  same relative order and no more often than in the input.
\<close>

theorem wheels_in_order_preserving_sublist:
  assumes "wheels_in env requirements = (t, Inr wheels)"
  shows "subseq wheels requirements"
  using assms by (rule wheels_in_subseq)

theorem wheels_in_order_preserving_sublist_witness:
  "wheels_in (mock_env (\<lambda>_. 0) [] length) [''pgzero==1.2'', ''nudatus==0.0.3''] =
     ([IndexQuery ''pgzero'', IndexQuery ''nudatus''], Inr [''pgzero==1.2'']) \<and>
   subseq [''pgzero==1.2''] [''pgzero==1.2'', ''nudatus==0.0.3'']"
  using wheels_in_order_preserving_sublist [OF wheels_in_mock [of "\<lambda>_. 0" "[]" length]]
    wheels_in_mock [of "\<lambda>_. 0" "[]" length]
  by simp

text \<open>
  Claim C2 fails as stated when the requirement list pins one package twice: with
  \<open>foo==1.0\<close> available as a wheel and \<open>foo==2.0\<close> not, \<open>wheels_in\<close> returns the
  first pin and \<open>packages_from\<close> returns the name \<open>foo\<close>, so that the package \<open>foo\<close> is
  on both sides.
\<close>

theorem wheels_and_packages_overlap_by_name_counterexample:
  "wheels_in (mock_env (\<lambda>_. 0) [] length
                \<lparr>yarg_get := \<lambda>name. Inr (\<lambda>version.
                    Some (if version = ''1.0'' then [''wheel''] else [''sdist'']))\<rparr>)
     [''foo==1.0'', ''foo==2.0''] =
     ([IndexQuery ''foo'', IndexQuery ''foo''], Inr [''foo==1.0'']) \<and>
   packages_from length [''foo==1.0'', ''foo==2.0''] [''foo==1.0''] = [''foo''] \<and>
   package_name ` set [''foo==1.0''] \<inter>
     set (packages_from length [''foo==1.0'', ''foo==2.0''] [''foo==1.0'']) = {''foo''}"
  by (simp add: wheels_in_def mock_env_def str_partition_def packages_from_def package_name_def)

text \<open>
  Claim C2, as amended.  Whenever \<open>wheels_in\<close> returns, the wheels are entries of the
  requirement list, \<open>packages_from\<close> returns exactly the package names of the requirements
  that are not wheels, and the package names of the wheels together with the returned
  names are the package names of the requirement list; when the requirement list names
  every package once, as the output of pip freeze does, no package name is on both sides.
\<close>

theorem wheels_and_packages_partition:
  assumes "wheels_in env requirements = (t, Inr wheels)"
  shows "set wheels \<subseteq> set requirements \<and>
         set (packages_from rank requirements wheels) =
           package_name ` (set requirements - set wheels) \<and>
         package_name ` set wheels \<union> set (packages_from rank requirements wheels) =
           package_name ` set requirements \<and>
         (distinct (map package_name requirements) \<longrightarrow>
            package_name ` set wheels \<inter> set (packages_from rank requirements wheels) = {})"
proof -
  from assms have sub: "set wheels \<subseteq> set requirements" by (rule wheels_in_subset)
  have pk: "set (packages_from rank requirements wheels) =
              package_name ` (set requirements - set wheels)"
    by (rule set_packages_from)
  from sub have nm: "package_name ` set wheels \<union> package_name ` (set requirements - set wheels) =
          package_name ` set requirements"
    by blast
  have dj: "package_name ` set wheels \<inter> set (packages_from rank requirements wheels) = {}"
    if "distinct (map package_name requirements)"
    using assms that by (rule wheels_packages_disjoint_by_name)
  from sub pk nm dj show ?thesis by simp
qed

theorem wheels_and_packages_partition_witness:
  "wheels_in (mock_env (\<lambda>_. 0) [] length) [''pgzero==1.2'', ''nudatus==0.0.3''] =
     ([IndexQuery ''pgzero'', IndexQuery ''nudatus''], Inr [''pgzero==1.2'']) \<and>
   distinct (map package_name [''pgzero==1.2'', ''nudatus==0.0.3'']) \<and>
   packages_from length [''pgzero==1.2'', ''nudatus==0.0.3''] [''pgzero==1.2''] = [''nudatus''] \<and>
   package_name ` set [''pgzero==1.2''] \<inter>
     set (packages_from length [''pgzero==1.2'', ''nudatus==0.0.3''] [''pgzero==1.2'']) = {} \<and>
   package_name ` set [''pgzero==1.2''] \<union>
     set (packages_from length [''pgzero==1.2'', ''nudatus==0.0.3''] [''pgzero==1.2'']) =
   package_name ` set [''pgzero==1.2'', ''nudatus==0.0.3'']"
proof -
  have h: "wheels_in (mock_env (\<lambda>_. 0) [] length) [''pgzero==1.2'', ''nudatus==0.0.3''] =
     ([IndexQuery ''pgzero'', IndexQuery ''nudatus''], Inr [''pgzero==1.2''])"
    by (rule wheels_in_mock)
  have d: "distinct (map package_name [''pgzero==1.2'', ''nudatus==0.0.3''])"
    by (simp add: package_name_def str_partition_def)
  from wheels_and_packages_partition [OF h, of length] d
  have "package_name ` set [''pgzero==1.2''] \<inter>
     set (packages_from length [''pgzero==1.2'', ''nudatus==0.0.3''] [''pgzero==1.2'']) = {}"
    and "package_name ` set [''pgzero==1.2''] \<union>
     set (packages_from length [''pgzero==1.2'', ''nudatus==0.0.3''] [''pgzero==1.2'']) =
   package_name ` set [''pgzero==1.2'', ''nudatus==0.0.3'']"
    by blast+
  with h d packages_from_mock show ?thesis by blast
qed

section \<open>Lemmas about the pipeline\<close>

lemma io_bind_Inr:
  "io_bind m f = (t, Inr y) \<longleftrightarrow> (\<exists>t1 x t2. m = (t1, Inr x) \<and> f x = (t2, Inr y) \<and> t = t1 @ t2)"
  by (auto simp: io_bind_def split: prod.splits sum.splits)

lemma io_bind_snd_Inl:
  "snd (io_bind m f) = Inl e \<longleftrightarrow> snd m = Inl e \<or> (\<exists>x. snd m = Inr x \<and> snd (f x) = Inl e)"
  by (cases m; cases "snd m") (auto simp: io_bind_def split: prod.splits)

lemma io_return_Inr: "io_return x = (t, Inr y) \<longleftrightarrow> t = [] \<and> y = x"
  by (auto simp: io_return_def)

lemma getitem_Inr: "getitem d k = (t, Inr v) \<longleftrightarrow> t = [] \<and> d k = Some v"
  by (auto simp: getitem_def split: option.splits)

lemma getitem_snd_Inl: "snd (getitem d key) = Inl e \<longleftrightarrow> d key = None \<and> e = KeyError key"
  by (auto simp: getitem_def split: option.splits)

lemma external_Inr: "external a = Inr v \<longleftrightarrow> a = Inr v"
  by (auto simp: external_def split: sum.splits)

lemma subprocess_run_Inr:
  "subprocess_run env args = (t, Inr u) \<longleftrightarrow>
     t = [Subprocess args] \<and> (\<exists>rc out. spawn env args = Inr (rc, out))"
  by (auto simp: subprocess_run_def split: sum.splits)

lemma check_output_Inr:
  "check_output env args = (t, Inr out) \<longleftrightarrow>
     t = [Subprocess args] \<and> spawn env args = Inr (0, out)"
  by (auto simp: check_output_def split: sum.splits)

text \<open>What a run that returns has gone through.\<close>

lemma run_body_success:
  assumes "run_body env bitness repo_root (work_dir_of env) = (t, Inr u)"
  obtains mu_about N V out tw wheels url content where
    "exec_file env (about_file_of env repo_root) = Inr mu_about"
    "mu_about ''__title__'' = Some N"
    "mu_about ''__version__'' = Some V"
    "spawn env (freeze_command env) = Inr (0, out)"
    "wheels_in env (requirements_of N (splitlines out)) = (tw, Inr wheels)"
    "ASSETS bitness = Some url"
    "requests_get env url = Inr content"
    "shutil_copy env (artifact_of env (installer_name_of N V bitness)) ''.'' = Inr ()"
    "t = pipeline_log env bitness repo_root N V (requirements_of N (splitlines out)) tw wheels
           url content"
  using assms
  apply (simp add: run_body_def Let_def split: prod.splits)
  apply (simp add: io_bind_Inr io_return_Inr getitem_Inr external_Inr subprocess_run_Inr
      check_output_Inr about_dict_def create_packaging_venv_def install_mu_def pip_freeze_def
      create_pynsist_cfg_file_def download_file_def unzip_file_def Let_def pipeline_log_def)
  apply (elim exE conjE)
  apply simp
  done

lemma run_unfold:
  "run env bitness repo_root =
     (MkTemp (work_dir_of env) #
        fst (run_body env bitness repo_root (work_dir_of env)) @ [RmTemp (work_dir_of env)],
      snd (run_body env bitness repo_root (work_dir_of env)))"
  by (simp add: run_def with_tempdir_def Let_def split: prod.splits)

text \<open>The body of \<open>run\<close> neither makes nor removes a temporary directory.\<close>

lemma no_temp_bind:
  assumes "list_all (\<lambda>ev. \<not> is_temp_event ev) (fst m)"
    and "\<And>x. list_all (\<lambda>ev. \<not> is_temp_event ev) (fst (f x))"
  shows "list_all (\<lambda>ev. \<not> is_temp_event ev) (fst (io_bind m f))"
proof (cases m)
  case (Pair t r)
  show ?thesis
  proof (cases r)
    case (Inl e)
    with Pair assms(1) show ?thesis by (simp add: io_bind_def)
  next
    case (Inr x)
    with Pair assms(1) assms(2) [of x] show ?thesis
      by (cases "f x") (simp add: io_bind_def)
  qed
qed

lemma no_temp_wheels_loop:
  "wheels_loop env acc reqs = (t, r) \<Longrightarrow> list_all (\<lambda>ev. \<not> is_temp_event ev) t"
proof (induction reqs arbitrary: acc t r)
  case Nil
  then show ?case by auto
next
  case (Cons q qs)
  then show ?case
    by (auto split: prod.splits sum.splits option.splits if_splits)
qed

lemma no_temp_wheels_in:
  "list_all (\<lambda>ev. \<not> is_temp_event ev) (fst (wheels_in env requirements))"
  using no_temp_wheels_loop [of env "[]" requirements] unfolding wheels_in_def
  by (cases "wheels_loop env [] requirements") simp

lemma no_temp_run_body:
  "list_all (\<lambda>ev. \<not> is_temp_event ev) (fst (run_body env bitness repo_root work_dir))"
  unfolding run_body_def Let_def
  by (intro no_temp_bind)
     (simp_all add: about_dict_def getitem_def create_packaging_venv_def install_mu_def
        pip_freeze_def no_temp_wheels_in create_pynsist_cfg_file_def
        download_file_def unzip_file_def subprocess_run_def check_output_def io_return_def
        io_bind_def Let_def split: option.splits sum.splits prod.splits)

lemma temp_dirs_after_no_temp:
  "list_all (\<lambda>ev. \<not> is_temp_event ev) t \<Longrightarrow>
   temp_dirs_after ds (t @ rest) = temp_dirs_after ds rest"
proof (induction t)
  case Nil
  then show ?case by simp
next
  case (Cons ev t)
  then show ?case by (cases ev) simp_all
qed

text \<open>Where a \<^verbatim>\<open>KeyError\<close> can come from.\<close>

lemma wheels_loop_no_KeyError:
  "wheels_loop env acc reqs = (t, r) \<Longrightarrow> r \<noteq> Inl (KeyError k)"
proof (induction reqs arbitrary: acc t r)
  case Nil
  then show ?case by auto
next
  case (Cons q qs)
  then show ?case
    by (auto split: prod.splits sum.splits option.splits if_splits)
qed

lemma wheels_in_no_KeyError: "snd (wheels_in env requirements) \<noteq> Inl (KeyError k)"
  using wheels_loop_no_KeyError [of env "[]" requirements] unfolding wheels_in_def
  by (cases "wheels_loop env [] requirements") simp

lemma external_no_KeyError: "external a \<noteq> Inl (KeyError k)"
  by (simp add: external_def split: sum.splits)

lemma about_dict_no_KeyError: "snd (about_dict env repo_root) \<noteq> Inl (KeyError k)"
  by (simp add: about_dict_def Let_def external_no_KeyError)

lemma subprocess_run_no_KeyError: "snd (subprocess_run env args) \<noteq> Inl (KeyError k)"
  by (simp add: subprocess_run_def split: sum.splits)

lemma check_output_no_KeyError: "snd (check_output env args) \<noteq> Inl (KeyError k)"
  by (simp add: check_output_def split: sum.splits)

lemma create_packaging_venv_no_KeyError:
  "snd (create_packaging_venv env target_directory name) \<noteq> Inl (KeyError k)"
  by (simp add: create_packaging_venv_def Let_def io_bind_snd_Inl subprocess_run_no_KeyError
      io_return_def)

lemma install_mu_no_KeyError: "snd (install_mu env python repo_root) \<noteq> Inl (KeyError k)"
  by (simp add: install_mu_def subprocess_run_no_KeyError)

lemma pip_freeze_no_KeyError: "snd (pip_freeze env python) \<noteq> Inl (KeyError k)"
  by (simp add: pip_freeze_def io_bind_snd_Inl check_output_no_KeyError io_return_def)

lemma create_pynsist_cfg_file_no_KeyError:
  "snd (create_pynsist_cfg_file env d v i l b w p n) \<noteq> Inl (KeyError k)"
  by (simp add: create_pynsist_cfg_file_def Let_def io_bind_snd_Inl io_return_def)

lemma download_file_no_KeyError: "snd (download_file env url d) \<noteq> Inl (KeyError k)"
  by (simp add: download_file_def Let_def io_bind_snd_Inl io_return_def external_no_KeyError)

lemma unzip_file_no_KeyError: "snd (unzip_file env f d) \<noteq> Inl (KeyError k)"
  by (simp add: unzip_file_def external_no_KeyError)

lemma run_body_KeyError:
  assumes "snd (run_body env bitness repo_root work_dir) = Inl (KeyError k)"
  shows "k = ''__title__'' \<or> k = ''__version__'' \<or> (k = bitness \<and> ASSETS bitness = None)"
  using assms
  by (simp add: run_body_def Let_def io_bind_snd_Inl getitem_snd_Inl wheels_in_no_KeyError
      about_dict_no_KeyError create_packaging_venv_no_KeyError install_mu_no_KeyError
      pip_freeze_no_KeyError create_pynsist_cfg_file_no_KeyError download_file_no_KeyError
      unzip_file_no_KeyError subprocess_run_no_KeyError external_no_KeyError)
     blast

text \<open>The command-line checks.\<close>

lemma endswith_suffix: "endswith s suf \<longleftrightarrow> suffix suf s"
proof
  assume "endswith s suf"
  then have "s = take (length s - length suf) s @ suf"
    by (metis append_take_drop_id endswith_def)
  then show "suffix suf s" by (rule suffixI)
next
  assume "suffix suf s"
  then obtain p where "s = p @ suf" by (auto simp: suffix_def)
  then show "endswith s suf" by (simp add: endswith_def)
qed

lemma ASSETS_None: "ASSETS b = None \<longleftrightarrow> b \<noteq> ''32'' \<and> b \<noteq> ''64''"
  by (auto simp: ASSETS_def)



text \<open>The exit status of a child process other than pip freeze is never looked at.\<close>

lemma yarg_get_with_exit_status: "yarg_get (with_exit_status status env) = yarg_get env"
  by (simp add: with_exit_status_def)

lemma wheels_loop_with_exit_status:
  "wheels_loop (with_exit_status status env) acc reqs = wheels_loop env acc reqs"
  by (induction reqs arbitrary: acc)
     (simp_all add: yarg_get_with_exit_status split: prod.splits sum.splits option.splits)

lemma subprocess_run_with_exit_status:
  "subprocess_run (with_exit_status status env) args = subprocess_run env args"
  by (simp add: subprocess_run_def with_exit_status_def split: sum.splits prod.splits)

lemma check_output_with_exit_status:
  "is_freeze_command args \<Longrightarrow>
   check_output (with_exit_status status env) args = check_output env args"
  by (simp add: check_output_def with_exit_status_def split: sum.splits prod.splits)

lemma with_exit_status_fields:
  "sys_executable (with_exit_status status env) = sys_executable env"
  "path_join (with_exit_status status env) = path_join env"
  "mkdtemp (with_exit_status status env) = mkdtemp env"
  "exec_file (with_exit_status status env) = exec_file env"
  "set_rank (with_exit_status status env) = set_rank env"
  "requests_get (with_exit_status status env) = requests_get env"
  "extractall (with_exit_status status env) = extractall env"
  "shutil_copy (with_exit_status status env) = shutil_copy env"
  by (simp_all add: with_exit_status_def)

lemma run_ignores_exit_status:
  "run (with_exit_status status env) bitness repo_root = run env bitness repo_root"
  by (simp add: run_def with_tempdir_def run_body_def about_dict_def create_packaging_venv_def
      install_mu_def pip_freeze_def wheels_in_def create_pynsist_cfg_file_def download_file_def
      unzip_file_def with_exit_status_fields wheels_loop_with_exit_status
      subprocess_run_with_exit_status check_output_with_exit_status is_freeze_command_def)

lemma run_freeze_failure:
  assumes "exec_file env (about_file_of env repo_root) = Inr mu_about"
    and "mu_about ''__title__'' = Some N" and "mu_about ''__version__'' = Some V"
    and "spawn env [sys_executable env, ''-m'', ''venv'',
                    path_join env [work_dir_of env, ''mu-packaging-venv'']] = Inr (rc1, out1)"
    and "spawn env [venv_python_of env, ''-m'', ''pip'', ''install'', repo_root] = Inr (rc2, out2)"
    and "spawn env (freeze_command env) = Inr (rc, out)" and "rc \<noteq> 0"
  shows "run env bitness repo_root =
     ([MkTemp (work_dir_of env),
       ReadFile (about_file_of env repo_root),
       Subprocess [sys_executable env, ''-m'', ''venv'',
                   path_join env [work_dir_of env, ''mu-packaging-venv'']],
       Subprocess [venv_python_of env, ''-m'', ''pip'', ''install'', repo_root],
       Subprocess (freeze_command env),
       RmTemp (work_dir_of env)],
      Inl (CalledProcessError rc))"
  using assms
  by (simp add: run_def with_tempdir_def run_body_def Let_def about_dict_def external_def
      getitem_def create_packaging_venv_def install_mu_def pip_freeze_def subprocess_run_def
      check_output_def io_bind_def io_return_def)

text \<open>Changing the order in which sets are iterated changes the order of the packages only.\<close>

lemma same_events_refl: "list_all2 same_up_to_package_order t t"
  by (simp add: list_all2_same same_up_to_package_order_def)

lemma same_run_refl: "same_run p p"
  by (simp add: same_run_def same_events_refl)

lemma same_run_bind:
  assumes "same_run m m'" and "\<And>x. same_run (f x) (g x)"
  shows "same_run (io_bind m f) (io_bind m' g)"
proof (cases m; cases m')
  fix t r t' r'
  assume m: "m = (t, r)" "m' = (t', r')"
  with assms(1) have tt: "list_all2 same_up_to_package_order t t'" and rr: "r' = r"
    by (simp_all add: same_run_def)
  show ?thesis
  proof (cases r)
    case (Inl e)
    with m tt rr show ?thesis by (simp add: same_run_def io_bind_def)
  next
    case (Inr x)
    from assms(2) [of x] have "list_all2 same_up_to_package_order (fst (f x)) (fst (g x))"
      and "snd (f x) = snd (g x)"
      by (simp_all add: same_run_def)
    with m tt rr Inr show ?thesis
      by (cases "f x"; cases "g x") (simp add: same_run_def io_bind_def list_all2_appendI)
  qed
qed

lemma same_run_cfg:
  assumes "mset ps = mset qs"
  shows "same_run
    (create_pynsist_cfg_file env d v i l b w (str_join ''\<newline>    '' ps) n)
    (create_pynsist_cfg_file env d v i l b w (str_join ''\<newline>    '' qs) n)"
  using assms
  by (auto simp: same_run_def create_pynsist_cfg_file_def Let_def io_bind_def io_return_def
      same_up_to_package_order_def)

lemma wheels_loop_set_rank:
  "wheels_loop (env\<lparr>set_rank := rank\<rparr>) acc reqs = wheels_loop env acc reqs"
  by (induction reqs arbitrary: acc)
     (simp_all split: prod.splits sum.splits option.splits)

lemma steps_set_rank:
  "about_dict (env\<lparr>set_rank := rank\<rparr>) = about_dict env"
  "create_packaging_venv (env\<lparr>set_rank := rank\<rparr>) = create_packaging_venv env"
  "install_mu (env\<lparr>set_rank := rank\<rparr>) = install_mu env"
  "pip_freeze (env\<lparr>set_rank := rank\<rparr>) = pip_freeze env"
  "wheels_in (env\<lparr>set_rank := rank\<rparr>) = wheels_in env"
  "create_pynsist_cfg_file (env\<lparr>set_rank := rank\<rparr>) = create_pynsist_cfg_file env"
  "download_file (env\<lparr>set_rank := rank\<rparr>) = download_file env"
  "unzip_file (env\<lparr>set_rank := rank\<rparr>) = unzip_file env"
  "subprocess_run (env\<lparr>set_rank := rank\<rparr>) = subprocess_run env"
  by (simp_all add: fun_eq_iff about_dict_def create_packaging_venv_def install_mu_def
      pip_freeze_def wheels_in_def wheels_loop_set_rank create_pynsist_cfg_file_def
      download_file_def unzip_file_def subprocess_run_def check_output_def)

lemma same_run_body:
  "same_run (run_body (env\<lparr>set_rank := rank\<rparr>) bitness repo_root work_dir)
            (run_body env bitness repo_root work_dir)"
  unfolding run_body_def Let_def steps_set_rank
  by (intro same_run_bind)
     (simp_all add: same_run_refl same_run_cfg packages_from_def Let_def)

lemma same_run_run:
  "same_run (run (env\<lparr>set_rank := rank\<rparr>) bitness repo_root) (run env bitness repo_root)"
  using same_run_body [where env = env and rank = rank and bitness = bitness
      and repo_root = repo_root and work_dir = "work_dir_of env"]
  by (simp add: run_unfold same_run_def same_up_to_package_order_def list_all2_appendI)

text \<open>The text of the template, with the values in their places.\<close>

lemma template_text:
  "PYNSIST_CFG_TEMPLATE_format version icon_file license_file bitness pypi_wheels packages
     installer_name =
   ''\<newline>[Application]\<newline>name=Mu\<newline>version='' @ version @
   ''\<newline>entry_point=mu.app:run\<newline>icon='' @ icon_file @
   ''\<newline>publisher=Nicholas H.Tollervey\<newline>license_file='' @ license_file @
   ''\<newline>\<newline>[Command mu-debug]\<newline>entry_point=mu.app:debug\<newline>\<newline>[Command pgzrun]\<newline>entry_point=pgzero.runner:main\<newline>\<newline>[Python]\<newline>version=3.6.3\<newline>bitness='' @ bitness @
   ''\<newline>format=bundled\<newline>\<newline>[Include]\<newline>pypi_wheels=\<newline>    '' @ pypi_wheels @
   ''\<newline>\<newline>packages=\<newline>    tkinter\<newline>    _tkinter\<newline>    turtle\<newline>    '' @ packages @
   ''\<newline>\<newline>files=lib\<newline>\<newline>[Build]\<newline>installer_name='' @ installer_name @ ''\<newline>''"
  by (simp add: PYNSIST_CFG_TEMPLATE_format_def)

text \<open>The model evaluated in the concrete environment.\<close>

lemmas eval_defs = run_def with_tempdir_def run_body_def Let_def io_bind_def io_return_def
  getitem_def external_def subprocess_run_def check_output_def about_dict_def
  create_packaging_venv_def install_mu_def pip_freeze_def create_pynsist_cfg_file_def
  download_file_def unzip_file_def mock_env_def splitlines_def is_linebreak_def
  requirements_of_def str_partition_def wheels_in_def packages_from_def
  installer_name_of_def ASSETS_def mock_freeze_output_def

lemma run_mock:
  assumes "status [''tmp.mu-pynsist/mu-packaging-venv/Scripts/python.exe'', ''-m'', ''pip'',
                   ''freeze'', ''--all''] = 0"
  shows "run (mock_env status mock_freeze_output length) ''64'' ''C:/mu'' = (mock_log, Inr ())"
  using assms by (simp add: eval_defs mock_log_def URL_def)

lemma main_mock:
  assumes "status [''tmp.mu-pynsist/mu-packaging-venv/Scripts/python.exe'', ''-m'', ''pip'',
                   ''freeze'', ''--all''] = 0"
  shows "main (mock_env status mock_freeze_output length)
           [''win_installer.py'', ''64'', ''C:/mu/setup.py''] = (mock_log, Completed)"
proof -
  have "path_abspath (mock_env status mock_freeze_output length)
          (path_dirname (mock_env status mock_freeze_output length) ''C:/mu/setup.py'') =
        ''C:/mu''"
    by (simp add: mock_env_def)
  with run_mock [of status, OF assms] show ?thesis
    by (simp add: main_def Let_def ASSETS_def endswith_def)
qed

section \<open>The command line\<close>

text \<open>
  Claim C4.  A command line with the wrong number of arguments, with a bitness other than
  \<open>32\<close> and \<open>64\<close>, or with a descriptor path that does not end in \<open>setup.py\<close> ends the
  program with exit status 1 and one of three messages, which name the expected arguments,
  the bitness given or the path given; the log of external actions is empty: no temporary
  directory, no subprocess, no request.  (\<open>argv\<close> is \<^verbatim>\<open>sys.argv\<close>, the script name
  first.)
\<close>

theorem invalid_cli_exits_before_any_work:
  assumes "length argv \<noteq> 3 \<or> argv ! 1 \<notin> {''32'', ''64''} \<or> \<not> suffix ''setup.py'' (argv ! 2)"
  shows "\<exists>message. main env argv = ([], SysExit message) \<and>
           exit_status (SysExit message) = 1 \<and>
           message \<in> {''Supply bitness (32 or 64) and path to setup.py.'',
                       ''Invalid bitness '' @ argv ! 1 @ '': use 32 or 64.'',
                       ''Invalid path to setup.py: '' @ argv ! 2 @ ''.''}"
  using assms by (auto simp: main_def Let_def ASSETS_None endswith_suffix)

theorem invalid_cli_exits_before_any_work_witness:
  "[''win_installer.py'', ''16'', ''C:/mu/setup.py''] ! 1 \<notin> {''32'', ''64''} \<and>
   main (mock_env (\<lambda>_. 0) mock_freeze_output length)
     [''win_installer.py'', ''16'', ''C:/mu/setup.py''] =
     ([], SysExit ''Invalid bitness 16: use 32 or 64.'') \<and>
   exit_status (SysExit ''Invalid bitness 16: use 32 or 64.'') = 1"
proof -
  have h: "[''win_installer.py'', ''16'', ''C:/mu/setup.py''] ! 1 \<notin> {''32'', ''64''}"
    by simp
  then have "length [''win_installer.py'', ''16'', ''C:/mu/setup.py''] \<noteq> 3 \<or>
      [''win_installer.py'', ''16'', ''C:/mu/setup.py''] ! 1 \<notin> {''32'', ''64''} \<or>
      \<not> suffix ''setup.py'' ([''win_installer.py'', ''16'', ''C:/mu/setup.py''] ! 2)"
    by blast
  from invalid_cli_exits_before_any_work [OF this,
      of "mock_env (\<lambda>_. 0) mock_freeze_output length"]
  obtain message where
    "main (mock_env (\<lambda>_. 0) mock_freeze_output length)
       [''win_installer.py'', ''16'', ''C:/mu/setup.py''] = ([], SysExit message)"
    by blast
  moreover have
    "snd (main (mock_env (\<lambda>_. 0) mock_freeze_output length)
       [''win_installer.py'', ''16'', ''C:/mu/setup.py'']) =
     SysExit ''Invalid bitness 16: use 32 or 64.''"
    by (simp add: main_def Let_def ASSETS_def)
  ultimately show ?thesis using h by simp
qed

text \<open>
  Claim C9.  Whenever \<open>main\<close> does anything at all, that is, whenever it calls \<open>run\<close>,
  the lookup of the bitness in \<open>ASSETS\<close> has a value; and the only \<^verbatim>\<open>KeyError\<close>s
  \<open>main\<close> can end with are those of the two descriptor keys, never that of the asset
  lookup.
\<close>

theorem asset_lookup_cannot_fail_from_cli:
  "(fst (main env argv) \<noteq> [] \<longrightarrow> (\<exists>url. getitem ASSETS (argv ! 1) = ([], Inr url))) \<and>
   (\<forall>k. snd (main env argv) = Uncaught (KeyError k) \<longrightarrow> k = ''__title__'' \<or> k = ''__version__'')"
proof (intro conjI impI allI)
  assume "fst (main env argv) \<noteq> []"
  then have "ASSETS (argv ! 1) \<noteq> None"
    by (auto simp: main_def Let_def split: if_splits)
  then show "\<exists>url. getitem ASSETS (argv ! 1) = ([], Inr url)"
    by (auto simp: getitem_def)
next
  fix k
  assume u: "snd (main env argv) = Uncaught (KeyError k)"
  then have v: "length argv = 3" "ASSETS (argv ! 1) \<noteq> None"
    by (auto simp: main_def Let_def split: if_splits)
  with u have "snd (run env (argv ! 1) (path_abspath env (path_dirname env (argv ! 2)))) =
      Inl (KeyError k)"
    by (auto simp: main_def Let_def split: if_splits prod.splits sum.splits)
  then have "snd (run_body env (argv ! 1) (path_abspath env (path_dirname env (argv ! 2)))
      (work_dir_of env)) = Inl (KeyError k)"
    by (simp add: run_unfold)
  from run_body_KeyError [OF this] v(2)
  show "k = ''__title__'' \<or> k = ''__version__''" by blast
qed

theorem asset_lookup_cannot_fail_from_cli_witness:
  "fst (main (mock_env (\<lambda>_. 0) mock_freeze_output length)
          [''win_installer.py'', ''64'', ''C:/mu/setup.py'']) \<noteq> [] \<and>
   getitem ASSETS ''64'' = ([], Inr (URL @ ''0.3/pynsist_tkinter_3.6_64bit.zip''))"
proof -
  have m: "main (mock_env (\<lambda>_. 0) mock_freeze_output length)
      [''win_installer.py'', ''64'', ''C:/mu/setup.py''] = (mock_log, Completed)"
    by (rule main_mock) simp
  then have n: "fst (main (mock_env (\<lambda>_. 0) mock_freeze_output length)
      [''win_installer.py'', ''64'', ''C:/mu/setup.py'']) \<noteq> []"
    by (simp add: mock_log_def)
  with asset_lookup_cannot_fail_from_cli
    [of "mock_env (\<lambda>_. 0) mock_freeze_output length"
        "[''win_installer.py'', ''64'', ''C:/mu/setup.py'']"]
  obtain url where "getitem ASSETS ''64'' = ([], Inr url)" by auto
  then have "getitem ASSETS ''64'' = ([], Inr (URL @ ''0.3/pynsist_tkinter_3.6_64bit.zip''))"
    by (simp add: getitem_def ASSETS_def)
  with n show ?thesis by simp
qed

section \<open>The pipeline\<close>

text \<open>
  Claim C10.  Whenever \<open>wheels_in\<close> returns, every wheel is an entry of the requirement
  list as it stands, while every element that \<open>packages_from\<close> returns contains no
  \<open>==\<close> and is the package name of a requirement that is not a wheel: that requirement
  is the name itself, or the name followed by \<open>==\<close> and the rest of the pin.  When \<open>run\<close>
  returns, the configuration text it wrote is the text below: the wheels, as they are and
  joined by a newline and four spaces, stand under \<open>pypi_wheels=\<close>, and the list returned
  by \<open>packages_from\<close>, joined in the same way, stands under \<open>packages=\<close> after the three
  fixed packages.
\<close>

theorem wheels_keep_pin_packages_are_bare_names:
  "(wheels_in env requirements = (t, Inr wheels) \<longrightarrow>
      (\<forall>w \<in> set wheels. w \<in> set requirements) \<and>
      (\<forall>p \<in> set (packages_from rank requirements wheels).
         \<not> sublist ''=='' p \<and>
         (\<exists>r \<in> set requirements - set wheels.
            p = package_name r \<and> (r = p \<or> (\<exists>rest. r = p @ ''=='' @ rest))))) \<and>
   (run env bitness repo_root = (log, Inr ()) \<longrightarrow>
      (\<exists>N V reqs tw ws.
         wheels_in env reqs = (tw, Inr ws) \<and>
         WriteFile (path_join env [work_dir_of env, ''pynsist.cfg''])
           (''\<newline>[Application]\<newline>name=Mu\<newline>version='' @ V @
            ''\<newline>entry_point=mu.app:run\<newline>icon='' @
            path_join env [repo_root, ''package'', ''icons'', ''win_icon.ico''] @
            ''\<newline>publisher=Nicholas H.Tollervey\<newline>license_file='' @
            path_join env [repo_root, ''LICENSE''] @
            ''\<newline>\<newline>[Command mu-debug]\<newline>entry_point=mu.app:debug\<newline>\<newline>[Command pgzrun]\<newline>entry_point=pgzero.runner:main\<newline>\<newline>[Python]\<newline>version=3.6.3\<newline>bitness='' @ bitness @
            ''\<newline>format=bundled\<newline>\<newline>[Include]\<newline>pypi_wheels=\<newline>    '' @
            str_join ''\<newline>    '' ws @
            ''\<newline>\<newline>packages=\<newline>    tkinter\<newline>    _tkinter\<newline>    turtle\<newline>    '' @
            str_join ''\<newline>    '' (packages_from (set_rank env) reqs ws) @
            ''\<newline>\<newline>files=lib\<newline>\<newline>[Build]\<newline>installer_name='' @
            installer_name_of N V bitness @ ''\<newline>'') \<in> set log))"
proof (intro conjI impI ballI)
  fix w assume "wheels_in env requirements = (t, Inr wheels)" "w \<in> set wheels"
  then show "w \<in> set requirements" by (auto dest: wheels_in_subset)
next
  fix p assume "p \<in> set (packages_from rank requirements wheels)"
  then obtain r where r: "r \<in> set requirements - set wheels" "p = package_name r"
    by (auto simp: set_packages_from)
  from r(2) show "\<not> sublist ''=='' p"
    by (simp add: package_name_def name_no_sep)
  from name_cases [of r "''==''"] r(2)
  have "r = p \<or> (\<exists>rest. r = p @ ''=='' @ rest)"
    by (auto simp: package_name_def)
  with r show "\<exists>r \<in> set requirements - set wheels.
      p = package_name r \<and> (r = p \<or> (\<exists>rest. r = p @ ''=='' @ rest))"
    by blast
next
  assume "run env bitness repo_root = (log, Inr ())"
  then have b: "run_body env bitness repo_root (work_dir_of env) =
      (fst (run_body env bitness repo_root (work_dir_of env)), Inr ())"
    and l: "log = MkTemp (work_dir_of env) #
        fst (run_body env bitness repo_root (work_dir_of env)) @ [RmTemp (work_dir_of env)]"
    by (simp_all add: run_unfold prod_eq_iff)
  from b show "\<exists>N V reqs tw ws.
         wheels_in env reqs = (tw, Inr ws) \<and>
         WriteFile (path_join env [work_dir_of env, ''pynsist.cfg''])
           (''\<newline>[Application]\<newline>name=Mu\<newline>version='' @ V @
            ''\<newline>entry_point=mu.app:run\<newline>icon='' @
            path_join env [repo_root, ''package'', ''icons'', ''win_icon.ico''] @
            ''\<newline>publisher=Nicholas H.Tollervey\<newline>license_file='' @
            path_join env [repo_root, ''LICENSE''] @
            ''\<newline>\<newline>[Command mu-debug]\<newline>entry_point=mu.app:debug\<newline>\<newline>[Command pgzrun]\<newline>entry_point=pgzero.runner:main\<newline>\<newline>[Python]\<newline>version=3.6.3\<newline>bitness='' @ bitness @
            ''\<newline>format=bundled\<newline>\<newline>[Include]\<newline>pypi_wheels=\<newline>    '' @
            str_join ''\<newline>    '' ws @
            ''\<newline>\<newline>packages=\<newline>    tkinter\<newline>    _tkinter\<newline>    turtle\<newline>    '' @
            str_join ''\<newline>    '' (packages_from (set_rank env) reqs ws) @
            ''\<newline>\<newline>files=lib\<newline>\<newline>[Build]\<newline>installer_name='' @
            installer_name_of N V bitness @ ''\<newline>'') \<in> set log"
  proof (rule run_body_success)
    fix N V out tw wheels' url content
    assume w: "wheels_in env (requirements_of N (splitlines out)) = (tw, Inr wheels')"
      and "fst (run_body env bitness repo_root (work_dir_of env)) =
        pipeline_log env bitness repo_root N V (requirements_of N (splitlines out)) tw wheels'
           url content"
    with l have "WriteFile (path_join env [work_dir_of env, ''pynsist.cfg''])
           (PYNSIST_CFG_TEMPLATE_format V
              (path_join env [repo_root, ''package'', ''icons'', ''win_icon.ico''])
              (path_join env [repo_root, ''LICENSE'']) bitness
              (str_join ''\<newline>    '' wheels')
              (str_join ''\<newline>    ''
                 (packages_from (set_rank env) (requirements_of N (splitlines out)) wheels'))
              (installer_name_of N V bitness)) \<in> set log"
      by (simp add: pipeline_log_def)
    with w show ?thesis unfolding template_text by blast
  qed
qed

theorem wheels_keep_pin_packages_are_bare_names_witness:
  "wheels_in (mock_env (\<lambda>_. 0) [] length) [''pgzero==1.2'', ''nudatus==0.0.3''] =
     ([IndexQuery ''pgzero'', IndexQuery ''nudatus''], Inr [''pgzero==1.2'']) \<and>
   packages_from length [''pgzero==1.2'', ''nudatus==0.0.3''] [''pgzero==1.2''] = [''nudatus''] \<and>
   \<not> sublist ''=='' ''nudatus'' \<and> package_name ''nudatus==0.0.3'' = ''nudatus'' \<and>
   run (mock_env (\<lambda>_. 0) mock_freeze_output length) ''64'' ''C:/mu'' = (mock_log, Inr ()) \<and>
   WriteFile ''tmp.mu-pynsist/pynsist.cfg''
     ''\<newline>[Application]\<newline>name=Mu\<newline>version=1.0\<newline>entry_point=mu.app:run\<newline>icon=C:/mu/package/icons/win_icon.ico\<newline>publisher=Nicholas H.Tollervey\<newline>license_file=C:/mu/LICENSE\<newline>\<newline>[Command mu-debug]\<newline>entry_point=mu.app:debug\<newline>\<newline>[Command pgzrun]\<newline>entry_point=pgzero.runner:main\<newline>\<newline>[Python]\<newline>version=3.6.3\<newline>bitness=64\<newline>format=bundled\<newline>\<newline>[Include]\<newline>pypi_wheels=\<newline>    pgzero==1.2\<newline>\<newline>packages=\<newline>    tkinter\<newline>    _tkinter\<newline>    turtle\<newline>    nudatus\<newline>\<newline>files=lib\<newline>\<newline>[Build]\<newline>installer_name=mu_1.0_win64.exe\<newline>''
     \<in> set mock_log"
proof -
  have h: "wheels_in (mock_env (\<lambda>_. 0) [] length) [''pgzero==1.2'', ''nudatus==0.0.3''] =
     ([IndexQuery ''pgzero'', IndexQuery ''nudatus''], Inr [''pgzero==1.2''])"
    by (rule wheels_in_mock)
  have r: "run (mock_env (\<lambda>_. 0) mock_freeze_output length) ''64'' ''C:/mu'' =
      (mock_log, Inr ())"
    by (rule run_mock) simp
  have n: "package_name ''nudatus==0.0.3'' = ''nudatus''"
    by (simp add: package_name_def str_partition_def)
  have c: "WriteFile ''tmp.mu-pynsist/pynsist.cfg''
     ''\<newline>[Application]\<newline>name=Mu\<newline>version=1.0\<newline>entry_point=mu.app:run\<newline>icon=C:/mu/package/icons/win_icon.ico\<newline>publisher=Nicholas H.Tollervey\<newline>license_file=C:/mu/LICENSE\<newline>\<newline>[Command mu-debug]\<newline>entry_point=mu.app:debug\<newline>\<newline>[Command pgzrun]\<newline>entry_point=pgzero.runner:main\<newline>\<newline>[Python]\<newline>version=3.6.3\<newline>bitness=64\<newline>format=bundled\<newline>\<newline>[Include]\<newline>pypi_wheels=\<newline>    pgzero==1.2\<newline>\<newline>packages=\<newline>    tkinter\<newline>    _tkinter\<newline>    turtle\<newline>    nudatus\<newline>\<newline>files=lib\<newline>\<newline>[Build]\<newline>installer_name=mu_1.0_win64.exe\<newline>''
     \<in> set mock_log"
    by (simp add: mock_log_def PYNSIST_CFG_TEMPLATE_format_def)
  from wheels_keep_pin_packages_are_bare_names
    [where env = "mock_env (\<lambda>_. 0) [] length" and rank = length
       and requirements = "[''pgzero==1.2'', ''nudatus==0.0.3'']"
       and wheels = "[''pgzero==1.2'']"] h
  have "\<forall>p \<in> set (packages_from length [''pgzero==1.2'', ''nudatus==0.0.3''] [''pgzero==1.2'']).
          \<not> sublist ''=='' p"
    by blast
  with packages_from_mock have "\<not> sublist ''=='' ''nudatus''" by simp
  with h r n c packages_from_mock show ?thesis by simp
qed

text \<open>
  Claim C5.  When \<open>run\<close> returns, the descriptor gave a title \<open>N\<close> and a version \<open>V\<close>,
  the installer name is \<open>N_V_winB.exe\<close> for the bitness \<open>B\<close>, and the last action before
  the temporary directory is removed is a successful \<^verbatim>\<open>shutil.copy\<close> of the file of that
  name in \<open>build/nsis\<close> of the work directory to the directory \<open>.\<close>; for the name
  \<open>Foo\<close>, the version \<open>1.2.3\<close> and the bitness \<open>64\<close> the name is \<open>Foo_1.2.3_win64.exe\<close>.
\<close>

theorem installer_artifact_name:
  assumes "run env bitness repo_root = (t, Inr ())"
  shows "installer_name_of ''Foo'' ''1.2.3'' ''64'' = ''Foo_1.2.3_win64.exe'' \<and>
         (\<exists>mu_about N V body.
           exec_file env (about_file_of env repo_root) = Inr mu_about \<and>
           mu_about ''__title__'' = Some N \<and>
           mu_about ''__version__'' = Some V \<and>
           installer_name_of N V bitness = N @ ''_'' @ V @ ''_win'' @ bitness @ ''.exe'' \<and>
           t = MkTemp (work_dir_of env) # body @
                 [CopyFile (artifact_of env (N @ ''_'' @ V @ ''_win'' @ bitness @ ''.exe'')) ''.'',
                  RmTemp (work_dir_of env)] \<and>
           shutil_copy env (artifact_of env (N @ ''_'' @ V @ ''_win'' @ bitness @ ''.exe'')) ''.'' =
             Inr ())"
proof -
  from assms have b: "run_body env bitness repo_root (work_dir_of env) =
      (fst (run_body env bitness repo_root (work_dir_of env)), Inr ())"
    and t: "t = MkTemp (work_dir_of env) #
        fst (run_body env bitness repo_root (work_dir_of env)) @ [RmTemp (work_dir_of env)]"
    by (simp_all add: run_unfold prod_eq_iff)
  have f: "installer_name_of ''Foo'' ''1.2.3'' ''64'' = ''Foo_1.2.3_win64.exe''"
    by (simp add: installer_name_of_def)
  from b show ?thesis
  proof (rule run_body_success)
    fix mu_about N V out tw wheels url content
    assume a: "exec_file env (about_file_of env repo_root) = Inr mu_about"
      "mu_about ''__title__'' = Some N" "mu_about ''__version__'' = Some V"
      and c: "shutil_copy env (artifact_of env (installer_name_of N V bitness)) ''.'' = Inr ()"
      and l: "fst (run_body env bitness repo_root (work_dir_of env)) =
        pipeline_log env bitness repo_root N V (requirements_of N (splitlines out)) tw wheels
           url content"
    have n: "installer_name_of N V bitness = N @ ''_'' @ V @ ''_win'' @ bitness @ ''.exe''"
      by (simp add: installer_name_of_def)
    from t l n have "\<exists>body. t = MkTemp (work_dir_of env) # body @
                 [CopyFile (artifact_of env (N @ ''_'' @ V @ ''_win'' @ bitness @ ''.exe'')) ''.'',
                  RmTemp (work_dir_of env)]"
      by (simp add: pipeline_log_def)
    with a c n f show ?thesis by auto
  qed
qed

theorem installer_artifact_name_witness:
  "run (mock_env (\<lambda>_. 0) mock_freeze_output length) ''64'' ''C:/mu'' = (mock_log, Inr ()) \<and>
   last (butlast mock_log) = CopyFile ''tmp.mu-pynsist/build/nsis/mu_1.0_win64.exe'' ''.'' \<and>
   installer_name_of ''Foo'' ''1.2.3'' ''64'' = ''Foo_1.2.3_win64.exe''"
proof -
  have r: "run (mock_env (\<lambda>_. 0) mock_freeze_output length) ''64'' ''C:/mu'' =
      (mock_log, Inr ())"
    by (rule run_mock) simp
  from installer_artifact_name [OF r]
  have "installer_name_of ''Foo'' ''1.2.3'' ''64'' = ''Foo_1.2.3_win64.exe''" by blast
  moreover have
    "last (butlast mock_log) = CopyFile ''tmp.mu-pynsist/build/nsis/mu_1.0_win64.exe'' ''.''"
    by (simp add: mock_log_def)
  ultimately show ?thesis using r by simp
qed

text \<open>
  Claim C7.  On every path through \<open>run\<close>, whether it returns or ends with an exception
  of any step, the log starts with the making of the temporary directory and ends with its
  removal, nothing in between makes or removes a temporary directory, and no temporary
  directory is left at the end.  When \<open>run\<close> returns, the last action before the removal
  is the copy of the installer out of the directory.
\<close>

theorem tempdir_removed_on_every_path:
  "\<exists>body. fst (run env bitness repo_root) =
            MkTemp (work_dir_of env) # body @ [RmTemp (work_dir_of env)] \<and>
          (\<forall>ev \<in> set body. \<not> is_temp_event ev) \<and>
          temp_dirs_after [] (fst (run env bitness repo_root)) = [] \<and>
          (snd (run env bitness repo_root) = Inr () \<longrightarrow>
             (\<exists>installer_name. body \<noteq> [] \<and>
                last body = CopyFile (artifact_of env installer_name) ''.''))"
proof -
  define body where "body = fst (run_body env bitness repo_root (work_dir_of env))"
  have t: "fst (run env bitness repo_root) =
      MkTemp (work_dir_of env) # body @ [RmTemp (work_dir_of env)]"
    by (simp add: run_unfold body_def)
  have nt: "list_all (\<lambda>ev. \<not> is_temp_event ev) body"
    unfolding body_def by (rule no_temp_run_body)
  then have q: "\<forall>ev \<in> set body. \<not> is_temp_event ev" by (simp add: list_all_iff)
  from nt have e: "temp_dirs_after [] (fst (run env bitness repo_root)) = []"
    by (simp add: t temp_dirs_after_no_temp)
  have c: "\<exists>installer_name. body \<noteq> [] \<and>
      last body = CopyFile (artifact_of env installer_name) ''.''"
    if "snd (run env bitness repo_root) = Inr ()"
  proof -
    from that have "run_body env bitness repo_root (work_dir_of env) = (body, Inr ())"
      by (simp add: run_unfold body_def prod_eq_iff)
    then show ?thesis
      by (rule run_body_success) (auto simp: pipeline_log_def)
  qed
  from t q e c show ?thesis by blast
qed

theorem tempdir_removed_on_every_path_witness:
  "run (mock_env (\<lambda>_. 0) mock_freeze_output length) ''64'' ''C:/mu'' = (mock_log, Inr ()) \<and>
   temp_dirs_after [] mock_log = [] \<and>
   hd mock_log = MkTemp ''tmp.mu-pynsist'' \<and> last mock_log = RmTemp ''tmp.mu-pynsist''"
proof -
  have r: "run (mock_env (\<lambda>_. 0) mock_freeze_output length) ''64'' ''C:/mu'' =
      (mock_log, Inr ())"
    by (rule run_mock) simp
  from tempdir_removed_on_every_path
    [of "mock_env (\<lambda>_. 0) mock_freeze_output length" "''64''" "''C:/mu''"] r
  have "temp_dirs_after [] mock_log = []" by auto
  moreover have "hd mock_log = MkTemp ''tmp.mu-pynsist''"
    "last mock_log = RmTemp ''tmp.mu-pynsist''"
    by (simp_all add: mock_log_def)
  ultimately show ?thesis using r by simp
qed



text \<open>
  Claim C1 fails as stated for the four steps started with \<^verbatim>\<open>subprocess.run\<close>, which
  is called without \<^verbatim>\<open>check=True\<close>: in the concrete environment below the install of
  the application exits with status 1, and \<open>run\<close> still goes through every later step,
  copies an installer and returns.
\<close>

theorem failed_install_does_not_stop_the_run_counterexample:
  "spawn (mock_env (\<lambda>args. if drop 1 args = [''-m'', ''pip'', ''install'', ''C:/mu''] then 1 else 0)
            mock_freeze_output length)
     [''tmp.mu-pynsist/mu-packaging-venv/Scripts/python.exe'', ''-m'', ''pip'', ''install'',
      ''C:/mu''] = Inr (1, []) \<and>
   run (mock_env (\<lambda>args. if drop 1 args = [''-m'', ''pip'', ''install'', ''C:/mu''] then 1 else 0)
          mock_freeze_output length) ''64'' ''C:/mu'' = (mock_log, Inr ()) \<and>
   CopyFile ''tmp.mu-pynsist/build/nsis/mu_1.0_win64.exe'' ''.'' \<in> set mock_log"
proof -
  have "run (mock_env (\<lambda>args. if drop 1 args = [''-m'', ''pip'', ''install'', ''C:/mu''] then 1 else 0)
          mock_freeze_output length) ''64'' ''C:/mu'' = (mock_log, Inr ())"
    by (rule run_mock) simp
  then show ?thesis by (simp add: mock_env_def mock_log_def)
qed

text \<open>
  Claim C1, as amended.  The log and the result of \<open>run\<close> do not depend on the exit
  status of any child process other than pip freeze; and when pip freeze exits with a
  non-zero status after the earlier steps, \<open>run\<close> ends with \<^verbatim>\<open>CalledProcessError\<close>
  and nothing follows the freeze but the removal of the temporary directory.
\<close>

theorem only_pip_freeze_checks_its_exit_status:
  "run (with_exit_status status env) bitness repo_root = run env bitness repo_root \<and>
   (\<forall>mu_about N V rc1 out1 rc2 out2 rc out.
      exec_file env (about_file_of env repo_root) = Inr mu_about \<and>
      mu_about ''__title__'' = Some N \<and> mu_about ''__version__'' = Some V \<and>
      spawn env [sys_executable env, ''-m'', ''venv'',
                 path_join env [work_dir_of env, ''mu-packaging-venv'']] = Inr (rc1, out1) \<and>
      spawn env [venv_python_of env, ''-m'', ''pip'', ''install'', repo_root] = Inr (rc2, out2) \<and>
      spawn env (freeze_command env) = Inr (rc, out) \<and> rc \<noteq> 0 \<longrightarrow>
      run env bitness repo_root =
        ([MkTemp (work_dir_of env),
          ReadFile (about_file_of env repo_root),
          Subprocess [sys_executable env, ''-m'', ''venv'',
                      path_join env [work_dir_of env, ''mu-packaging-venv'']],
          Subprocess [venv_python_of env, ''-m'', ''pip'', ''install'', repo_root],
          Subprocess (freeze_command env),
          RmTemp (work_dir_of env)],
         Inl (CalledProcessError rc)))"
  by (intro conjI allI impI run_ignores_exit_status) (elim conjE, rule run_freeze_failure)

theorem only_pip_freeze_checks_its_exit_status_witness:
  "run (with_exit_status (\<lambda>_. 1) (mock_env (\<lambda>_. 0) mock_freeze_output length)) ''64'' ''C:/mu'' =
     (mock_log, Inr ()) \<and>
   run (mock_env (\<lambda>args. if is_freeze_command args then 2 else 0) mock_freeze_output length)
     ''64'' ''C:/mu'' =
     ([MkTemp ''tmp.mu-pynsist'',
       ReadFile ''C:/mu/mu/__about__.py'',
       Subprocess [''python'', ''-m'', ''venv'', ''tmp.mu-pynsist/mu-packaging-venv''],
       Subprocess [''tmp.mu-pynsist/mu-packaging-venv/Scripts/python.exe'', ''-m'', ''pip'',
                   ''install'', ''C:/mu''],
       Subprocess [''tmp.mu-pynsist/mu-packaging-venv/Scripts/python.exe'', ''-m'', ''pip'',
                   ''freeze'', ''--all''],
       RmTemp ''tmp.mu-pynsist''],
      Inl (CalledProcessError 2))"
proof -
  let ?F = "mock_env (\<lambda>args. if is_freeze_command args then 2 else 0) mock_freeze_output length"
  have r: "run (mock_env (\<lambda>_. 0) mock_freeze_output length) ''64'' ''C:/mu'' =
      (mock_log, Inr ())"
    by (rule run_mock) simp
  have h: "exec_file ?F (about_file_of ?F ''C:/mu'') =
        Inr [''__title__'' \<mapsto> ''mu'', ''__version__'' \<mapsto> ''1.0''] \<and>
      [''__title__'' \<mapsto> ''mu'', ''__version__'' \<mapsto> ''1.0''] ''__title__'' = Some ''mu'' \<and>
      [''__title__'' \<mapsto> ''mu'', ''__version__'' \<mapsto> ''1.0''] ''__version__'' = Some ''1.0'' \<and>
      spawn ?F [sys_executable ?F, ''-m'', ''venv'',
                 path_join ?F [work_dir_of ?F, ''mu-packaging-venv'']] = Inr (0, []) \<and>
      spawn ?F [venv_python_of ?F, ''-m'', ''pip'', ''install'', ''C:/mu''] = Inr (0, []) \<and>
      spawn ?F (freeze_command ?F) = Inr (2, mock_freeze_output) \<and> (2::int) \<noteq> 0"
    by (simp add: mock_env_def is_freeze_command_def)
  from only_pip_freeze_checks_its_exit_status
    [of "\<lambda>_. 1" "mock_env (\<lambda>_. 0) mock_freeze_output length" "''64''" "''C:/mu''"] r
  have a: "run (with_exit_status (\<lambda>_. 1) (mock_env (\<lambda>_. 0) mock_freeze_output length))
      ''64'' ''C:/mu'' = (mock_log, Inr ())"
    by simp
  from only_pip_freeze_checks_its_exit_status [of "\<lambda>_. 1" ?F "''64''" "''C:/mu''"] h
  have "run ?F ''64'' ''C:/mu'' =
        ([MkTemp (work_dir_of ?F),
          ReadFile (about_file_of ?F ''C:/mu''),
          Subprocess [sys_executable ?F, ''-m'', ''venv'',
                      path_join ?F [work_dir_of ?F, ''mu-packaging-venv'']],
          Subprocess [venv_python_of ?F, ''-m'', ''pip'', ''install'', ''C:/mu''],
          Subprocess (freeze_command ?F),
          RmTemp (work_dir_of ?F)],
         Inl (CalledProcessError 2))"
    by blast
  with a show ?thesis by (simp add: mock_env_def)
qed

text \<open>
  Claim C3 fails as stated because \<open>packages_from\<close> iterates a set: the two environments
  below give the same answers to every call and differ only in the order in which a set
  is iterated, and the configuration texts written differ in the order of the packages.
\<close>

theorem cfg_content_depends_on_set_order_counterexample:
  "mock_env (\<lambda>_. 0) ''mu==1.0\<newline>pgzero==1.2\<newline>nudatus==0.0.3\<newline>semver==2.8\<newline>''
     (\<lambda>s. 20 - length s) =
   (mock_env (\<lambda>_. 0) ''mu==1.0\<newline>pgzero==1.2\<newline>nudatus==0.0.3\<newline>semver==2.8\<newline>'' length)
     \<lparr>set_rank := \<lambda>s. 20 - length s\<rparr> \<and>
   written_to ''tmp.mu-pynsist/pynsist.cfg''
     (fst (run (mock_env (\<lambda>_. 0)
                  ''mu==1.0\<newline>pgzero==1.2\<newline>nudatus==0.0.3\<newline>semver==2.8\<newline>'' length)
             ''64'' ''C:/mu'')) =
   [PYNSIST_CFG_TEMPLATE_format ''1.0'' ''C:/mu/package/icons/win_icon.ico'' ''C:/mu/LICENSE''
      ''64'' ''pgzero==1.2'' ''semver\<newline>    nudatus'' ''mu_1.0_win64.exe''] \<and>
   written_to ''tmp.mu-pynsist/pynsist.cfg''
     (fst (run (mock_env (\<lambda>_. 0)
                  ''mu==1.0\<newline>pgzero==1.2\<newline>nudatus==0.0.3\<newline>semver==2.8\<newline>''
                  (\<lambda>s. 20 - length s))
             ''64'' ''C:/mu'')) =
   [PYNSIST_CFG_TEMPLATE_format ''1.0'' ''C:/mu/package/icons/win_icon.ico'' ''C:/mu/LICENSE''
      ''64'' ''pgzero==1.2'' ''nudatus\<newline>    semver'' ''mu_1.0_win64.exe''] \<and>
   PYNSIST_CFG_TEMPLATE_format ''1.0'' ''C:/mu/package/icons/win_icon.ico'' ''C:/mu/LICENSE''
      ''64'' ''pgzero==1.2'' ''semver\<newline>    nudatus'' ''mu_1.0_win64.exe'' \<noteq>
   PYNSIST_CFG_TEMPLATE_format ''1.0'' ''C:/mu/package/icons/win_icon.ico'' ''C:/mu/LICENSE''
      ''64'' ''pgzero==1.2'' ''nudatus\<newline>    semver'' ''mu_1.0_win64.exe''"
proof (intro conjI)
  show "mock_env (\<lambda>_. 0) ''mu==1.0\<newline>pgzero==1.2\<newline>nudatus==0.0.3\<newline>semver==2.8\<newline>''
     (\<lambda>s. 20 - length s) =
   (mock_env (\<lambda>_. 0) ''mu==1.0\<newline>pgzero==1.2\<newline>nudatus==0.0.3\<newline>semver==2.8\<newline>'' length)
     \<lparr>set_rank := \<lambda>s. 20 - length s\<rparr>"
    by (simp add: mock_env_def)
  show "written_to ''tmp.mu-pynsist/pynsist.cfg''
     (fst (run (mock_env (\<lambda>_. 0)
                  ''mu==1.0\<newline>pgzero==1.2\<newline>nudatus==0.0.3\<newline>semver==2.8\<newline>'' length)
             ''64'' ''C:/mu'')) =
   [PYNSIST_CFG_TEMPLATE_format ''1.0'' ''C:/mu/package/icons/win_icon.ico'' ''C:/mu/LICENSE''
      ''64'' ''pgzero==1.2'' ''semver\<newline>    nudatus'' ''mu_1.0_win64.exe'']"
    by (simp add: eval_defs URL_def)
  show "written_to ''tmp.mu-pynsist/pynsist.cfg''
     (fst (run (mock_env (\<lambda>_. 0)
                  ''mu==1.0\<newline>pgzero==1.2\<newline>nudatus==0.0.3\<newline>semver==2.8\<newline>''
                  (\<lambda>s. 20 - length s))
             ''64'' ''C:/mu'')) =
   [PYNSIST_CFG_TEMPLATE_format ''1.0'' ''C:/mu/package/icons/win_icon.ico'' ''C:/mu/LICENSE''
      ''64'' ''pgzero==1.2'' ''nudatus\<newline>    semver'' ''mu_1.0_win64.exe'']"
    by (simp add: eval_defs URL_def)
  show "PYNSIST_CFG_TEMPLATE_format ''1.0'' ''C:/mu/package/icons/win_icon.ico'' ''C:/mu/LICENSE''
      ''64'' ''pgzero==1.2'' ''semver\<newline>    nudatus'' ''mu_1.0_win64.exe'' \<noteq>
   PYNSIST_CFG_TEMPLATE_format ''1.0'' ''C:/mu/package/icons/win_icon.ico'' ''C:/mu/LICENSE''
      ''64'' ''pgzero==1.2'' ''nudatus\<newline>    semver'' ''mu_1.0_win64.exe''"
    by (simp add: PYNSIST_CFG_TEMPLATE_format_def)
qed

text \<open>
  Claim C3, as amended.  Two runs in environments that differ only in the order in which
  sets are iterated end alike and log the same events, except that the configuration text
  may list the computed packages in another order; and when the order is the same, the
  runs are equal.
\<close>

theorem cfg_content_equal_up_to_package_order:
  "same_run (run (env\<lparr>set_rank := rank\<rparr>) bitness repo_root) (run env bitness repo_root) \<and>
   ((\<forall>r. rank r = set_rank env r) \<longrightarrow>
      run (env\<lparr>set_rank := rank\<rparr>) bitness repo_root = run env bitness repo_root)"
proof (intro conjI impI)
  show "same_run (run (env\<lparr>set_rank := rank\<rparr>) bitness repo_root) (run env bitness repo_root)"
    by (rule same_run_run)
next
  assume "\<forall>r. rank r = set_rank env r"
  then have "rank = set_rank env" by (simp add: fun_eq_iff)
  then have "env\<lparr>set_rank := rank\<rparr> = env" by simp
  then show "run (env\<lparr>set_rank := rank\<rparr>) bitness repo_root = run env bitness repo_root"
    by simp
qed

theorem cfg_content_equal_up_to_package_order_witness:
  "(\<forall>r. length r = set_rank (mock_env (\<lambda>_. 0) mock_freeze_output length) r) \<and>
   run ((mock_env (\<lambda>_. 0) mock_freeze_output length)\<lparr>set_rank := length\<rparr>) ''64'' ''C:/mu'' =
     (mock_log, Inr ()) \<and>
   same_run
     (run ((mock_env (\<lambda>_. 0) mock_freeze_output length)\<lparr>set_rank := \<lambda>s. 20 - length s\<rparr>)
        ''64'' ''C:/mu'')
     (mock_log, Inr ())"
proof -
  have r: "run (mock_env (\<lambda>_. 0) mock_freeze_output length) ''64'' ''C:/mu'' =
      (mock_log, Inr ())"
    by (rule run_mock) simp
  have h: "\<forall>r. length r = set_rank (mock_env (\<lambda>_. 0) mock_freeze_output length) r"
    by (simp add: mock_env_def)
  from cfg_content_equal_up_to_package_order
    [where env = "mock_env (\<lambda>_. 0) mock_freeze_output length" and rank = length
       and bitness = "''64''" and repo_root = "''C:/mu''"] h r
  have a: "run ((mock_env (\<lambda>_. 0) mock_freeze_output length)\<lparr>set_rank := length\<rparr>)
      ''64'' ''C:/mu'' = (mock_log, Inr ())"
    by simp
  from cfg_content_equal_up_to_package_order
    [where env = "mock_env (\<lambda>_. 0) mock_freeze_output length"
       and rank = "\<lambda>s. 20 - length s" and bitness = "''64''" and repo_root = "''C:/mu''"] r
  have "same_run
     (run ((mock_env (\<lambda>_. 0) mock_freeze_output length)\<lparr>set_rank := \<lambda>s. 20 - length s\<rparr>)
        ''64'' ''C:/mu'')
     (mock_log, Inr ())"
    by simp
  with h a show ?thesis by blast
qed

end
